theory Spec2Isabelle
  imports Complex_Main "HOL-Library.Sublist"
begin

section \<open>The interview graph of \<open>graph.py\<close>\<close>

text \<open>
  The development embeds the node functions of \<open>graph.py\<close> and the graph that
  \<open>build_interview_graph\<close> wires from them.

  Conventions of the embedding.
  \<^item> An \<open>InterviewState\<close> is a Python dictionary whose keys may be absent
    (\<open>TypedDict, total=False\<close>): every field of the record is an option, \<open>None\<close>
    for an absent key. A node returns such a dictionary as its update, and the graph
    writes every key of the update over the state (\<open>apply_update\<close>).
    \<open>state.get(k, d)\<close> is \<open>get_or d (k state)\<close>; \<open>state[k]\<close> on an absent key is
    the error \<open>KeyError\<close>.
  \<^item> Python floats (scores, times) are rationals and their arithmetic is exact;
    \<open>round(x, 2)\<close> and the format \<open>.2f\<close> round the exact value to the nearest
    hundredth, a tie to the even one, as Python does with the value of a float. The
    source's arithmetic carries the rounding error of binary floats, which can change
    a result only where an exact value lies on a rounding tie or within that error of
    one. A score is a number of hundredths, so its comparisons with 2.8, 3.0, 4.0 and
    4.2 are those of the source.
  \<^item> \<open>time.time()\<close> is a parameter \<open>now\<close> of the node that reads the clock.
  \<^item> The question bank (the global \<open>QUESTION_BANK\<close>, loaded from a file, empty
    when the file cannot be read) is a parameter \<open>bank\<close>.
  \<^item> The graph is the one \<open>build_interview_graph\<close> compiles: it has no interrupt,
    so a run goes from \<open>START\<close> to \<open>END\<close> node by node, and the candidate's
    answers are the \<open>HumanMessage\<close>s among the messages.
  \<^item> Strings are lists of 8-bit characters read as ASCII text.
  \<^item> The keys that only the three setup nodes and \<open>print_transcript\<close> touch
    (the job description, the role, the company, the summary, the insights, the
    competencies, ...) and the \<open>feedback\<close> text of an answer are left out: no
    other function looks at them.
\<close>

subsection \<open>Strings\<close>

definition upper_chars :: string where
  "upper_chars = ''ABCDEFGHIJKLMNOPQRSTUVWXYZ''"

definition lower_chars :: string where
  "lower_chars = ''abcdefghijklmnopqrstuvwxyz''"

text \<open>\<open>str.lower()\<close> on ASCII text.\<close>

definition lower_char :: "char \<Rightarrow> char" where
  "lower_char c = (case map_of (zip upper_chars lower_chars) c of Some d \<Rightarrow> d | None \<Rightarrow> c)"

definition py_lower :: "string \<Rightarrow> string" where
  "py_lower s = map lower_char s"

text \<open>The ASCII characters that \<open>str.split()\<close> treats as white space.\<close>

definition is_space :: "char \<Rightarrow> bool" where
  "is_space c = (c \<in> set [CHR 0x20, CHR 0x09, CHR 0x0A, CHR 0x0B, CHR 0x0C, CHR 0x0D,
                           CHR 0x1C, CHR 0x1D, CHR 0x1E, CHR 0x1F])"

text \<open>\<open>s.split()\<close>: the maximal runs of characters that are not white space.
  \<open>cur\<close> is the run being read.\<close>

fun split_from :: "string \<Rightarrow> string \<Rightarrow> string list" where
  "split_from cur [] = (if cur = [] then [] else [cur])"
| "split_from cur (c # cs) =
     (if is_space c then (if cur = [] then split_from [] cs else cur # split_from [] cs)
      else split_from (cur @ [c]) cs)"

definition py_split :: "string \<Rightarrow> string list" where
  "py_split s = split_from [] s"

text \<open>\<open>w in s\<close> on strings.\<close>

fun str_in :: "string \<Rightarrow> string \<Rightarrow> bool" where
  "str_in w [] = (w = [])"
| "str_in w (c # cs) = (prefix w (c # cs) \<or> str_in w cs)"

text \<open>\<open>any(w in s for w in ws)\<close>.\<close>

definition any_in :: "string list \<Rightarrow> string \<Rightarrow> bool" where
  "any_in ws s = list_ex (\<lambda>w. str_in w s) ws"

subsection \<open>Numbers\<close>

text \<open>The nearest integer, a tie to the even one.\<close>

definition round_half_even :: "rat \<Rightarrow> int" where
  "round_half_even x =
     (let f = \<lfloor>x\<rfloor>; r = x - of_int f
      in if r < 1 / 2 then f else if 1 / 2 < r then f + 1 else if even f then f else f + 1)"

text \<open>\<open>round(x, 2)\<close>.\<close>

definition py_round2 :: "rat \<Rightarrow> rat" where
  "py_round2 x = of_int (round_half_even (x * 100)) / 100"

text \<open>The decimal digits of a natural number.\<close>

fun digits_fuel :: "nat \<Rightarrow> nat \<Rightarrow> string" where
  "digits_fuel 0 n = []"
| "digits_fuel (Suc k) n =
     (if n < 10 then [char_of (48 + n)] else digits_fuel k (n div 10) @ [char_of (48 + n mod 10)])"

definition str_nat :: "nat \<Rightarrow> string" where
  "str_nat n = digits_fuel (Suc n) n"

text \<open>The formats \<open>f"{x:.0f}"\<close> and \<open>f"{x:.2f}"\<close>.\<close>

definition format_0f :: "rat \<Rightarrow> string" where
  "format_0f x = (if x < 0 then ''-'' else []) @ str_nat (nat (round_half_even \<bar>x\<bar>))"

definition format_2f :: "rat \<Rightarrow> string" where
  "format_2f x =
     (let h = nat (round_half_even (\<bar>x\<bar> * 100))
      in (if x < 0 then ''-'' else []) @ str_nat (h div 100) @ ''.'' @
         [char_of (48 + (h mod 100) div 10), char_of (48 + h mod 10)])"

subsection \<open>The data model\<close>

datatype question_type = technical | behavioral | mixed

datatype difficulty_level = easy | medium | hard

datatype confidence_level = low | moderate | high

record QuestionRecord =
  q_id :: string
  q_text :: string
  q_type :: question_type
  q_difficulty :: difficulty_level
  q_topic :: string

text \<open>The dictionary \<open>star\<close> of an answer, with its keys S, T, A and R.\<close>

record star_flags =
  star_S :: bool
  star_T :: bool
  star_A :: bool
  star_R :: bool

text \<open>The confidence \<open>moderate\<close> is the string \<open>"medium"\<close> of the source.\<close>

record AnswerRecord =
  question_id :: string
  user_answer :: string
  score :: rat
  confidence :: confidence_level
  star_usage :: star_flags
  time_taken_sec :: rat

datatype message = HumanMessage string | AIMessage string

record report =
  total_questions :: nat
  average_score :: string
  overall_confidence :: string
  star_coverage :: string
  report_behavioral :: int
  report_technical :: int
  strengths :: "string list"
  areas_to_improve :: "string list"
  next_steps :: "string list"

record InterviewState =
  required_skills :: "string list option"
  max_questions :: "int option"
  asked_questions :: "QuestionRecord list option"
  answers :: "AnswerRecord list option"
  difficulty :: "difficulty_level option"
  question_counter :: "int option"
  current_question :: "QuestionRecord option option"
  start_time :: "rat option"
  awaiting_answer :: "bool option"
  time_budget_min :: "int option"
  estimated_time_used_min :: "rat option"
  final_report :: "report option"
  messages :: "message list option"
  should_follow_up :: "bool option"
  salary_negotiation_phase :: "bool option"
  interview_complete :: "bool option"
  behavioral_questions :: "int option"
  technical_questions :: "int option"

datatype py_error = KeyError string | TypeError string

text \<open>The empty dictionary \<open>{}\<close>.\<close>

definition empty_update :: InterviewState where
  "empty_update = \<lparr> required_skills = None,
     max_questions = None, asked_questions = None, answers = None, difficulty = None,
     question_counter = None, current_question = None, start_time = None,
     awaiting_answer = None, time_budget_min = None, estimated_time_used_min = None,
     final_report = None, messages = None, should_follow_up = None,
     salary_negotiation_phase = None, interview_complete = None,
     behavioral_questions = None, technical_questions = None \<rparr>"

text \<open>A key of the update replaces the state's; a key the update lacks is kept.\<close>

definition over :: "'a option \<Rightarrow> 'a option \<Rightarrow> 'a option" where
  "over old new = (case new of None \<Rightarrow> old | Some v \<Rightarrow> Some v)"

definition apply_update :: "InterviewState \<Rightarrow> InterviewState \<Rightarrow> InterviewState" where
  "apply_update s u = \<lparr>
     required_skills = over (required_skills s) (required_skills u),
     max_questions = over (max_questions s) (max_questions u),
     asked_questions = over (asked_questions s) (asked_questions u),
     answers = over (answers s) (answers u),
     difficulty = over (difficulty s) (difficulty u),
     question_counter = over (question_counter s) (question_counter u),
     current_question = over (current_question s) (current_question u),
     start_time = over (start_time s) (start_time u),
     awaiting_answer = over (awaiting_answer s) (awaiting_answer u),
     time_budget_min = over (time_budget_min s) (time_budget_min u),
     estimated_time_used_min = over (estimated_time_used_min s) (estimated_time_used_min u),
     final_report = over (final_report s) (final_report u),
     messages = over (messages s) (messages u),
     should_follow_up = over (should_follow_up s) (should_follow_up u),
     salary_negotiation_phase = over (salary_negotiation_phase s) (salary_negotiation_phase u),
     interview_complete = over (interview_complete s) (interview_complete u),
     behavioral_questions = over (behavioral_questions s) (behavioral_questions u),
     technical_questions = over (technical_questions s) (technical_questions u) \<rparr>"

text \<open>\<open>state.get(k, d)\<close>, and the truth value of \<open>state.get(k)\<close> for a boolean key.\<close>

definition get_or :: "'a \<Rightarrow> 'a option \<Rightarrow> 'a" where
  "get_or d v = (case v of None \<Rightarrow> d | Some x \<Rightarrow> x)"

definition truthy :: "bool option \<Rightarrow> bool" where
  "truthy v = (v = Some True)"

text \<open>\<open>next((m.content for m in reversed(msgs) if isinstance(m, HumanMessage)), "")\<close>.\<close>

fun is_human :: "message \<Rightarrow> bool" where
  "is_human (HumanMessage c) = True"
| "is_human (AIMessage c) = False"

fun content :: "message \<Rightarrow> string" where
  "content (HumanMessage c) = c"
| "content (AIMessage c) = c"

definition last_human :: "message list \<Rightarrow> string" where
  "last_human msgs = (case List.find is_human (rev msgs) of None \<Rightarrow> [] | Some m \<Rightarrow> content m)"

subsection \<open>Answer evaluation\<close>

definition S_words :: "string list" where
  "S_words = [''situation'', ''context'', ''background'', ''scenario'', ''role'', ''previous'',
              ''company'', ''corp'']"

definition T_words :: "string list" where
  "T_words = [''task'', ''goal'', ''responsibility'', ''assigned'', ''tasked'', ''objective'',
              ''challenge'']"

definition A_words :: "string list" where
  "A_words = [''action'', ''implemented'', ''did'', ''used'', ''applied'', ''developed'',
              ''created'', ''built'', ''handled'']"

definition R_words :: "string list" where
  "R_words = [''result'', ''impact'', ''outcome'', ''achieved'', ''improved'', ''reduced'',
              ''increased'', ''handled'', ''traffic'']"

text \<open>The dictionary \<open>star\<close> of \<open>evaluate_answer\<close>, from the lower-cased answer.\<close>

definition star_of :: "string \<Rightarrow> star_flags" where
  "star_of lower = \<lparr> star_S = any_in S_words lower, star_T = any_in T_words lower,
                       star_A = any_in A_words lower, star_R = any_in R_words lower \<rparr>"

text \<open>\<open>sum(star.values())\<close>: a flag counts 1 when it is true.\<close>

definition star_sum :: "star_flags \<Rightarrow> nat" where
  "star_sum st = of_bool (star_S st) + of_bool (star_T st) + of_bool (star_A st) + of_bool (star_R st)"

text \<open>The four numbers that \<open>evaluate_answer\<close> computes from the answer \<open>ans\<close> and the
  state's required skills, in the source's order and under its names.\<close>

definition star_score_of :: "string \<Rightarrow> rat" where
  "star_score_of ans = of_nat (star_sum (star_of (py_lower ans))) / 4"

definition rel_of :: "string list \<Rightarrow> string \<Rightarrow> rat" where
  "rel_of skills ans =
     (if list_ex (\<lambda>skill. str_in (py_lower skill) (py_lower ans)) skills then 1 else 1 / 2)"

definition detail_of :: "string \<Rightarrow> rat" where
  "detail_of ans = min (of_nat (length (py_split ans)) / 80) 1"

definition score_of :: "string list \<Rightarrow> string \<Rightarrow> rat" where
  "score_of skills ans =
     py_round2 ((star_score_of ans * (1 / 2) + rel_of skills ans * (3 / 10)
                 + detail_of ans * (1 / 5)) * 5)"

definition conf_of :: "rat \<Rightarrow> confidence_level" where
  "conf_of sc = (if sc \<ge> 4 then high else if sc \<ge> 28 / 10 then moderate else low)"

text \<open>The difficulty key of the update: present only where the source assigns it.\<close>

definition adjust_difficulty :: "difficulty_level \<Rightarrow> rat \<Rightarrow> difficulty_level option" where
  "adjust_difficulty current_difficulty sc =
     (if sc \<ge> 42 / 10 then
        (if current_difficulty = easy then Some medium
         else if current_difficulty = medium then Some hard else None)
      else if sc < 3 then
        (if current_difficulty = hard then Some medium
         else if current_difficulty = medium then Some easy else None)
      else None)"

definition evaluate_answer :: "rat \<Rightarrow> InterviewState \<Rightarrow> py_error + InterviewState" where
  "evaluate_answer now state =
     (if \<not> truthy (awaiting_answer state) then Inr empty_update
      else (case current_question state of
        None \<Rightarrow> Inl (KeyError ''current_question'')
      | Some None \<Rightarrow> Inr empty_update
      | Some (Some q) \<Rightarrow>
          (case messages state of
             None \<Rightarrow> Inl (KeyError ''messages'')
           | Some msgs \<Rightarrow>
               (let ans = last_human msgs;
                    sc = score_of (get_or [] (required_skills state)) ans
                in case start_time state of
                     None \<Rightarrow> Inl (KeyError ''start_time'')
                   | Some started \<Rightarrow>
                       (let rec = \<lparr> question_id = q_id q, user_answer = ans, score = sc,
                                      confidence = conf_of sc,
                                      star_usage = star_of (py_lower ans),
                                      time_taken_sec = now - started \<rparr>
                        in case answers state of
                             None \<Rightarrow> Inl (KeyError ''answers'')
                           | Some anss \<Rightarrow>
                               (case difficulty state of
                                  None \<Rightarrow> Inl (KeyError ''difficulty'')
                                | Some current_difficulty \<Rightarrow>
                                    Inr (empty_update
                                      \<lparr> answers := Some (anss @ [rec]),
                                        awaiting_answer := Some False,
                                        should_follow_up :=
                                          Some (28 / 10 \<le> sc \<and> sc < 42 / 10),
                                        difficulty :=
                                          adjust_difficulty current_difficulty sc \<rparr>)))))))"

subsection \<open>Question selection and generation\<close>

text \<open>\<open>_select_question\<close>; \<open>candidates[0]\<close> is read only when the list is not empty.\<close>

definition select_question :: "QuestionRecord list \<Rightarrow> InterviewState \<Rightarrow> QuestionRecord option" where
  "select_question bank state =
     (let used_ids = set (map q_id (get_or [] (asked_questions state)));
          current = get_or medium (difficulty state);
          candidates = filter (\<lambda>q. q_difficulty q \<in> set [current, medium] \<and> q_id q \<notin> used_ids) bank;
          candidates = (if candidates = [] then filter (\<lambda>q. q_id q \<notin> used_ids) bank
                        else candidates)
      in case candidates of [] \<Rightarrow> None | q # rest \<Rightarrow> Some q)"

definition generate_question ::
    "QuestionRecord list \<Rightarrow> rat \<Rightarrow> InterviewState \<Rightarrow> py_error + InterviewState" where
  "generate_question bank now state =
     (let max_q = get_or 5 (max_questions state)
      in if get_or 0 (question_counter state) \<ge> max_q
         then Inr (empty_update \<lparr> current_question := Some None \<rparr>)
         else (case select_question bank state of
           None \<Rightarrow> Inr (empty_update \<lparr> current_question := Some None \<rparr>)
         | Some q \<Rightarrow>
             (case asked_questions state of
                None \<Rightarrow> Inl (KeyError ''asked_questions'')
              | Some asked \<Rightarrow>
                  (case question_counter state of
                     None \<Rightarrow> Inl (KeyError ''question_counter'')
                   | Some counter \<Rightarrow>
                       Inr (empty_update
                         \<lparr> current_question := Some (Some q),
                           start_time := Some now,
                           question_counter := Some (counter + 1),
                           asked_questions := Some (asked @ [q]),
                           awaiting_answer := Some True,
                           messages := Some (get_or [] (messages state)
                                             @ [AIMessage (''Question: '' @ q_text q)]),
                           behavioral_questions :=
                             (if q_type q = behavioral
                              then Some (get_or 0 (behavioral_questions state) + 1) else None),
                           technical_questions :=
                             (if q_type q = behavioral then None
                              else if q_type q = technical
                              then Some (get_or 0 (technical_questions state) + 1) else None) \<rparr>)))))"

text \<open>The text of a follow-up question, from the candidate's previous answer.\<close>

definition follow_up_text :: "string \<Rightarrow> string" where
  "follow_up_text previous_answer =
     ''That'' @ [CHR 0x27] @ ''s an interesting point about '' @ [CHR 0x27]
     @ take 20 previous_answer @ ''...'' @ [CHR 0x27]
     @ ''. Can you elaborate on the challenges you faced?''"

definition generate_follow_up_question :: "rat \<Rightarrow> InterviewState \<Rightarrow> py_error + InterviewState" where
  "generate_follow_up_question now state =
     (if \<not> truthy (should_follow_up state) then Inr empty_update
      else (case current_question state of
        None \<Rightarrow> Inl (KeyError ''current_question'')
      | Some previous \<Rightarrow>
          (case messages state of
             None \<Rightarrow> Inl (KeyError ''messages'')
           | Some msgs \<Rightarrow>
               (case previous of
                  None \<Rightarrow> Inl (TypeError ''NoneType object is not subscriptable'')
                | Some previous_question \<Rightarrow>
                    (let follow_up_question =
                           \<lparr> q_id = ''followup_'' @ q_id previous_question,
                             q_text = follow_up_text (last_human msgs),
                             q_type = q_type previous_question,
                             q_difficulty = q_difficulty previous_question,
                             q_topic = q_topic previous_question \<rparr>
                     in case asked_questions state of
                          None \<Rightarrow> Inl (KeyError ''asked_questions'')
                        | Some asked \<Rightarrow>
                            (case question_counter state of
                               None \<Rightarrow> Inl (KeyError ''question_counter'')
                             | Some counter \<Rightarrow>
                                 Inr (empty_update
                                   \<lparr> current_question := Some (Some follow_up_question),
                                     start_time := Some now,
                                     question_counter := Some (counter + 1),
                                     asked_questions := Some (asked @ [follow_up_question]),
                                     awaiting_answer := Some True,
                                     messages := Some (msgs @ [AIMessage (''Follow-up: ''
                                                   @ q_text follow_up_question)]),
                                     should_follow_up := Some False \<rparr>)))))))"

subsection \<open>Progress, the controller and the report\<close>

definition update_progress :: "InterviewState \<Rightarrow> py_error + InterviewState" where
  "update_progress state =
     (case answers state of
        None \<Rightarrow> Inl (KeyError ''answers'')
      | Some ans \<Rightarrow>
          (if ans = [] then Inr empty_update
           else (case estimated_time_used_min state of
             None \<Rightarrow> Inl (KeyError ''estimated_time_used_min'')
           | Some used \<Rightarrow>
               (let last_answer_time_sec = time_taken_sec (last ans);
                    new_estimated_time = used + last_answer_time_sec / 60;
                    avg = sum_list (map score ans) / of_nat (length ans)
                in Inr (empty_update
                     \<lparr> estimated_time_used_min := Some new_estimated_time,
                       messages := Some (get_or [] (messages state)
                         @ [AIMessage (''Progress: '' @ format_2f avg @ ''/5 avg score.'')]) \<rparr>)))))"

datatype node =
    START | N_parse_job_description | N_research_company | N_analyze_role
  | N_generate_question | N_evaluate_answer | N_generate_follow_up_question
  | N_update_progress | N_generate_final_report | N_save_progress
  | N_start_salary_negotiation | N_negotiate_salary | END

text \<open>The controller names the next node. On the time limit it also appends a message
  to the state it was given; the second component is the state as it leaves it.\<close>

definition controller :: "InterviewState \<Rightarrow> node \<times> InterviewState" where
  "controller state =
     (if truthy (interview_complete state) then
        (if \<not> truthy (salary_negotiation_phase state) then (N_start_salary_negotiation, state)
         else (N_save_progress, state))
      else if get_or False (should_follow_up state) then (N_generate_follow_up_question, state)
      else if get_or 0 (estimated_time_used_min state) \<ge> of_int (get_or 15 (time_budget_min state))
        then (N_generate_final_report,
              state \<lparr> messages := Some (get_or [] (messages state)
                                        @ [AIMessage ''Time limit reached.'']) \<rparr>)
      else if get_or 0 (question_counter state) \<ge> get_or 5 (max_questions state)
        then (N_generate_final_report, state)
      else (N_generate_question, state))"

definition next_steps_fixed :: "string list" where
  "next_steps_fixed =
     [''Review the feedback for each question to identify patterns.'',
      ''Prepare 2-3 additional stories using the STAR method for common behavioral questions.'',
      ''Practice articulating the impact of your work with measurable outcomes.'']"

definition empty_report :: report where
  "empty_report = \<lparr> total_questions = 0, average_score = ''0.00'',
     overall_confidence = ''Low'', star_coverage = ''0%'',
     report_behavioral = 0, report_technical = 0,
     strengths = [''No questions answered.''],
     areas_to_improve = [''Complete the interview to get feedback.''],
     next_steps = [''Try running the interview simulation again.''] \<rparr>"

definition build_report :: "InterviewState \<Rightarrow> AnswerRecord list \<Rightarrow> report" where
  "build_report state anss =
     (let total = length anss;
          average = sum_list (map score anss) / of_nat total;
          average_star_coverage =
            of_nat (sum_list (map (\<lambda>a. star_sum (star_usage a)) anss)) / of_nat (total * 4) * 100;
          overall = (if average \<ge> 4 then ''High'' else if average \<ge> 28 / 10 then ''Medium''
                     else ''Low'');
          strengths1 = (if average \<ge> 4
                        then [''Strong overall performance and clear communication.''] else []);
          areas1 = (if average \<ge> 4 then []
                    else if average < 25 / 10
                    then [''Focus on providing more detailed and structured answers.''] else []);
          strengths2 = (if average_star_coverage > 75
                        then strengths1 @ [''Excellent use of the STAR method.''] else strengths1);
          areas2 = (if average_star_coverage > 75 then areas1
                    else areas1 @ [''Work on consistently applying the STAR method (Situation, Task, Action, Result).'']);
          low_scoring_answers = filter (\<lambda>a. score a < 3) anss;
          areas3 = (if (of_nat (length low_scoring_answers) :: rat) > of_nat (length anss) / 2
                    then areas2 @ [''Elaborate more on the results and impact of your actions.'']
                    else areas2)
      in \<lparr> total_questions = total,
           average_score = format_2f average,
           overall_confidence = overall,
           star_coverage = format_0f average_star_coverage @ ''%'',
           report_behavioral = get_or 0 (behavioral_questions state),
           report_technical = get_or 0 (technical_questions state),
           strengths = (if strengths2 = [] then [''Good effort, keep practicing.''] else strengths2),
           areas_to_improve = (if areas3 = [] then [''Continue to refine your stories.'']
                               else areas3),
           next_steps = next_steps_fixed \<rparr>)"

definition generate_final_report :: "InterviewState \<Rightarrow> py_error + InterviewState" where
  "generate_final_report state =
     (let anss = get_or [] (answers state);
          rep = (if anss = [] then empty_report else build_report state anss)
      in Inr (empty_update
           \<lparr> final_report := Some rep,
             interview_complete := Some True,
             messages := Some (get_or [] (messages state)
                               @ [AIMessage ''Interview complete. Generating final report.'']) \<rparr>))"

subsection \<open>Salary negotiation and the setup nodes\<close>

definition start_salary_negotiation :: "InterviewState \<Rightarrow> py_error + InterviewState" where
  "start_salary_negotiation state = Inr (empty_update \<lparr> salary_negotiation_phase := Some True \<rparr>)"

definition negotiate_salary ::
    "QuestionRecord list \<Rightarrow> rat \<Rightarrow> InterviewState \<Rightarrow> py_error + InterviewState" where
  "negotiate_salary bank now state =
     (if \<not> truthy (salary_negotiation_phase state) then Inr empty_update
      else (case filter (\<lambda>q. q_topic q = ''Salary'') bank of
        [] \<Rightarrow> Inr empty_update
      | question # rest \<Rightarrow>
          Inr (empty_update
            \<lparr> current_question := Some (Some question),
              start_time := Some now,
              awaiting_answer := Some True,
              messages := Some (get_or [] (messages state)
                 @ [AIMessage (''Now, let'' @ [CHR 0x27] @ ''s discuss salary. ''
                               @ q_text question)]) \<rparr>)))"

text \<open>Of what \<open>parse_job_description\<close> returns the state keeps the required skills;
  \<open>research_company\<close> writes a key that is left out; \<open>save_progress\<close> appends to a
  file and returns the empty update.\<close>

definition parse_job_description :: "InterviewState \<Rightarrow> py_error + InterviewState" where
  "parse_job_description state =
     Inr (empty_update \<lparr> required_skills :=
       Some [''Python'', ''REST APIs'', ''Microservices'', ''SQL'', ''Docker'', ''Unit Testing'',
             ''CI/CD''] \<rparr>)"

definition research_company :: "InterviewState \<Rightarrow> py_error + InterviewState" where
  "research_company state = Inr empty_update"

definition analyze_role :: "InterviewState \<Rightarrow> py_error + InterviewState" where
  "analyze_role state =
     Inr (empty_update
       \<lparr> difficulty := Some (get_or medium (difficulty state)),
         question_counter := Some 0,
         asked_questions := Some [],
         answers := Some [],
         awaiting_answer := Some False,
         time_budget_min := Some (get_or 15 (time_budget_min state)),
         estimated_time_used_min := Some 0,
         behavioral_questions := Some 0,
         technical_questions := Some 0 \<rparr>)"

definition save_progress :: "InterviewState \<Rightarrow> py_error + InterviewState" where
  "save_progress state = Inr empty_update"

subsection \<open>The graph\<close>

text \<open>The function of each node. \<open>START\<close> and \<open>END\<close> have none.\<close>

fun node_fn :: "QuestionRecord list \<Rightarrow> rat \<Rightarrow> node \<Rightarrow> InterviewState \<Rightarrow> py_error + InterviewState" where
  "node_fn bank now START state = Inr empty_update"
| "node_fn bank now N_parse_job_description state = parse_job_description state"
| "node_fn bank now N_research_company state = research_company state"
| "node_fn bank now N_analyze_role state = analyze_role state"
| "node_fn bank now N_generate_question state = generate_question bank now state"
| "node_fn bank now N_evaluate_answer state = evaluate_answer now state"
| "node_fn bank now N_generate_follow_up_question state = generate_follow_up_question now state"
| "node_fn bank now N_update_progress state = update_progress state"
| "node_fn bank now N_generate_final_report state = generate_final_report state"
| "node_fn bank now N_save_progress state = save_progress state"
| "node_fn bank now N_start_salary_negotiation state = start_salary_negotiation state"
| "node_fn bank now N_negotiate_salary state = negotiate_salary bank now state"
| "node_fn bank now END state = Inr empty_update"

text \<open>The edges of \<open>build_interview_graph\<close>: the node that follows \<open>n\<close>, on the state
  that \<open>n\<close> left. The three conditional edges ask the controller.\<close>

fun successor :: "node \<Rightarrow> InterviewState \<Rightarrow> node \<times> InterviewState" where
  "successor START state = (N_parse_job_description, state)"
| "successor N_parse_job_description state = (N_research_company, state)"
| "successor N_research_company state = (N_analyze_role, state)"
| "successor N_generate_question state = (N_evaluate_answer, state)"
| "successor N_generate_follow_up_question state = (N_evaluate_answer, state)"
| "successor N_negotiate_salary state = (N_evaluate_answer, state)"
| "successor N_evaluate_answer state = (N_update_progress, state)"
| "successor N_start_salary_negotiation state = (N_negotiate_salary, state)"
| "successor N_analyze_role state = controller state"
| "successor N_update_progress state = controller state"
| "successor N_generate_final_report state = controller state"
| "successor N_save_progress state = (END, state)"
| "successor END state = (END, state)"

text \<open>One step of the graph: run the node, write its update over the state, follow
  the edge. A node that raises ends the run with its error.\<close>

definition graph_step ::
    "QuestionRecord list \<Rightarrow> rat \<Rightarrow> node \<times> InterviewState \<Rightarrow> py_error + node \<times> InterviewState" where
  "graph_step bank now c =
     (case node_fn bank now (fst c) (snd c) of
        Inl e \<Rightarrow> Inl e
      | Inr u \<Rightarrow> Inr (successor (fst c) (apply_update (snd c) u)))"

text \<open>\<open>k\<close> steps from a configuration; \<open>clock i\<close> is what \<open>time.time()\<close> returns in
  step \<open>i\<close>. The run stays at \<open>END\<close> once it is there.\<close>

fun run :: "QuestionRecord list \<Rightarrow> (nat \<Rightarrow> rat) \<Rightarrow> nat \<Rightarrow> node \<times> InterviewState
              \<Rightarrow> py_error + node \<times> InterviewState" where
  "run bank clock 0 c = Inr c"
| "run bank clock (Suc k) c =
     (case run bank clock k c of
        Inl e \<Rightarrow> Inl e
      | Inr c' \<Rightarrow> if fst c' = END then Inr c' else graph_step bank (clock k) c')"

subsection \<open>Sample inputs\<close>

text \<open>The order of the difficulty levels.\<close>

definition level_rank :: "difficulty_level \<Rightarrow> int" where
  "level_rank d = (case d of easy \<Rightarrow> 0 | medium \<Rightarrow> 1 | hard \<Rightarrow> 2)"

definition sample_question :: QuestionRecord where
  "sample_question = \<lparr> q_id = ''q1'', q_text = ''Describe a REST API you built.'',
     q_type = technical, q_difficulty = medium, q_topic = ''Python'' \<rparr>"

definition salary_question :: QuestionRecord where
  "salary_question = \<lparr> q_id = ''q2'', q_text = ''What salary do you expect?'',
     q_type = behavioral, q_difficulty = medium, q_topic = ''Salary'' \<rparr>"

text \<open>The input of \<open>__main__\<close>, and the same with room for one question.\<close>

definition main_init :: InterviewState where
  "main_init = empty_update
     \<lparr> max_questions := Some 5, time_budget_min := Some 15, messages := Some [] \<rparr>"

definition short_init :: InterviewState where
  "short_init = empty_update
     \<lparr> max_questions := Some 1, time_budget_min := Some 15, messages := Some [] \<rparr>"

text \<open>A clock that advances one minute with every step of the graph.\<close>

definition minute_clock :: "nat \<Rightarrow> rat" where
  "minute_clock i = of_nat i * 60"

text \<open>A state in which \<open>sample_question\<close> has been posed and the candidate's answer
  is the last message.\<close>

definition posed_messages :: "message list" where
  "posed_messages = [AIMessage ''Question: Describe a REST API you built.'',
                     HumanMessage ''My task was a role where I used Python'']"

definition posed_state :: InterviewState where
  "posed_state = empty_update
     \<lparr> required_skills := Some [''Python'', ''SQL''],
       max_questions := Some 5,
       asked_questions := Some [sample_question],
       answers := Some [],
       difficulty := Some medium,
       question_counter := Some 1,
       current_question := Some (Some sample_question),
       start_time := Some 0,
       awaiting_answer := Some True,
       time_budget_min := Some 15,
       estimated_time_used_min := Some 0,
       messages := Some posed_messages \<rparr>"

text \<open>The same state once the answer has been evaluated and a follow-up is due.\<close>

definition follow_up_state :: InterviewState where
  "follow_up_state = posed_state \<lparr> awaiting_answer := Some False, should_follow_up := Some True \<rparr>"



text \<open>The node that runs in step \<open>k\<close> of the graph started on \<open>init\<close>, and the state
  it finds; \<open>None\<close> when a node has raised before.\<close>

definition node_at ::
    "QuestionRecord list \<Rightarrow> (nat \<Rightarrow> rat) \<Rightarrow> nat \<Rightarrow> InterviewState \<Rightarrow> node option" where
  "node_at bank clock k init =
     (case run bank clock k (START, init) of Inl e \<Rightarrow> None | Inr c \<Rightarrow> Some (fst c))"

definition state_at ::
    "QuestionRecord list \<Rightarrow> (nat \<Rightarrow> rat) \<Rightarrow> nat \<Rightarrow> InterviewState \<Rightarrow> InterviewState option" where
  "state_at bank clock k init =
     (case run bank clock k (START, init) of Inl e \<Rightarrow> None | Inr c \<Rightarrow> Some (snd c))"

text \<open>The state of a run on \<open>main_init\<close> with an empty bank, from its fifth step on.\<close>

definition stalled_state :: InterviewState where
  "stalled_state = \<lparr> required_skills = Some [''Python'', ''REST APIs'', ''Microservices'', ''SQL'',
       ''Docker'', ''Unit Testing'', ''CI/CD''],
     max_questions = Some 5, asked_questions = Some [], answers = Some [],
     difficulty = Some medium, question_counter = Some 0, current_question = Some None,
     start_time = None, awaiting_answer = Some False, time_budget_min = Some 15,
     estimated_time_used_min = Some 0, final_report = None, messages = Some [],
     should_follow_up = None, salary_negotiation_phase = None, interview_complete = None,
     behavioral_questions = Some 0, technical_questions = Some 0 \<rparr>"

subsection \<open>The quantities of the report\<close>




subsection \<open>What holds in every step of a run\<close>

text \<open>After the setup nodes the keys that \<open>analyze_role\<close> writes are present; an answer
  is awaited only on entry to \<open>evaluate_answer\<close>, and then a question has been posed:
  \<open>current_question\<close> holds a question, and \<open>messages\<close> and \<open>start_time\<close> are
  present.\<close>

definition setup_done :: "InterviewState \<Rightarrow> bool" where
  "setup_done s = (asked_questions s \<noteq> None \<and> answers s \<noteq> None \<and> difficulty s \<noteq> None
     \<and> question_counter s \<noteq> None \<and> estimated_time_used_min s \<noteq> None)"

definition question_posed :: "InterviewState \<Rightarrow> bool" where
  "question_posed s = ((case current_question s of Some (Some q) \<Rightarrow> True | _ \<Rightarrow> False)
     \<and> messages s \<noteq> None \<and> start_time s \<noteq> None)"

definition run_invariant :: "node \<times> InterviewState \<Rightarrow> bool" where
  "run_invariant c =
     (if fst c \<in> {START, N_parse_job_description, N_research_company, N_analyze_role} then True
      else setup_done (snd c)
           \<and> (if fst c = N_evaluate_answer
               then (if truthy (awaiting_answer (snd c)) then question_posed (snd c) else True)
               else \<not> truthy (awaiting_answer (snd c))))"

section \<open>Properties\<close>

subsection \<open>Auxiliary facts\<close>

lemma apply_empty_update: "apply_update s empty_update = s"
  by (simp add: apply_update_def empty_update_def over_def)















lemma find_filter_hd: "(case filter P xs of [] \<Rightarrow> None | q # rest \<Rightarrow> Some q) = List.find P xs"
  by (induction xs) auto

lemma find_None_filter: "(filter P xs = []) = (List.find P xs = None)"
  by (induction xs) auto

text \<open>What \<open>evaluate_answer\<close> returns when a question awaits its answer and the keys it
  reads are there.\<close>

lemma evaluate_answer_runs:
  assumes "truthy (awaiting_answer state)" "current_question state = Some (Some q)"
    "messages state = Some msgs" "start_time state = Some started"
    "answers state = Some anss" "difficulty state = Some d"
  shows "evaluate_answer now state =
     Inr (empty_update
        \<lparr> answers := Some (anss @ [\<lparr> question_id = q_id q, user_answer = last_human msgs,
                 score = score_of (get_or [] (required_skills state)) (last_human msgs),
                 confidence = conf_of (score_of (get_or [] (required_skills state)) (last_human msgs)),
                 star_usage = star_of (py_lower (last_human msgs)),
                 time_taken_sec = now - started \<rparr>]),
          awaiting_answer := Some False,
          should_follow_up := Some (28 / 10 \<le> score_of (get_or [] (required_skills state)) (last_human msgs)
                \<and> score_of (get_or [] (required_skills state)) (last_human msgs) < 42 / 10),
          difficulty := adjust_difficulty d (score_of (get_or [] (required_skills state)) (last_human msgs)) \<rparr>)"
  using assms by (simp add: evaluate_answer_def Let_def)

lemma adjust_difficulty_step:
  "over (Some d) (adjust_difficulty d sc) =
     Some (if sc \<ge> 42 / 10 then (case d of easy \<Rightarrow> medium | medium \<Rightarrow> hard | hard \<Rightarrow> hard)
           else if sc < 3 then (case d of hard \<Rightarrow> medium | medium \<Rightarrow> easy | easy \<Rightarrow> easy)
           else d)"
  by (cases d) (simp_all add: adjust_difficulty_def over_def)

lemma generate_follow_up_question_runs:
  assumes "truthy (should_follow_up state)" "current_question state = Some (Some previous)"
    "messages state = Some msgs" "asked_questions state = Some asked"
    "question_counter state = Some counter"
  shows "generate_follow_up_question now state =
     Inr (empty_update
       \<lparr> current_question := Some (Some \<lparr> q_id = ''followup_'' @ q_id previous,
             q_text = follow_up_text (last_human msgs), q_type = q_type previous,
             q_difficulty = q_difficulty previous, q_topic = q_topic previous \<rparr>),
         start_time := Some now,
         question_counter := Some (counter + 1),
         asked_questions := Some (asked @ [\<lparr> q_id = ''followup_'' @ q_id previous,
             q_text = follow_up_text (last_human msgs), q_type = q_type previous,
             q_difficulty = q_difficulty previous, q_topic = q_topic previous \<rparr>]),
         awaiting_answer := Some True,
         messages := Some (msgs @ [AIMessage (''Follow-up: '' @ follow_up_text (last_human msgs))]),
         should_follow_up := Some False \<rparr>)"
  using assms by (simp add: generate_follow_up_question_def Let_def)




text \<open>A run on \<open>main_init\<close> with an empty bank: its first steps, and the cycle of
  three nodes it enters.\<close>

lemma stall_start: "run [] clock 5 (START, main_init) = Inr (N_evaluate_answer, stalled_state)"
  by code_simp

lemma stall_prefix:
  "node_at [] clock 0 main_init = Some START"
  "node_at [] clock 1 main_init = Some N_parse_job_description"
  "node_at [] clock 2 main_init = Some N_research_company"
  "node_at [] clock 3 main_init = Some N_analyze_role"
  "node_at [] clock 4 main_init = Some N_generate_question"
  by code_simp+

lemma stall_cycle:
  "graph_step [] now (N_evaluate_answer, stalled_state) = Inr (N_update_progress, stalled_state)"
  "graph_step [] now (N_update_progress, stalled_state) = Inr (N_generate_question, stalled_state)"
  "graph_step [] now (N_generate_question, stalled_state) = Inr (N_evaluate_answer, stalled_state)"
  by code_simp+

lemma stall_loop:
  "run [] clock (k + 5) (START, main_init)
     \<in> {Inr (N_evaluate_answer, stalled_state), Inr (N_update_progress, stalled_state),
        Inr (N_generate_question, stalled_state)}"
proof (induction k)
  case 0
  show ?case by (simp add: stall_start)
next
  case (Suc k)
  have "Suc k + 5 = Suc (k + 5)" by simp
  then show ?case
    unfolding run.simps(2) using Suc.IH
    by (auto simp only: run.simps(2) stall_cycle sum.case fst_conv node.distinct if_False
          insert_iff empty_iff)
qed

subsection \<open>Answer evaluation\<close>



text \<open>
  Claim C4. An evaluated answer moves the difficulty by at most one level: a score of
  at least 4.2 takes easy to medium, medium to hard and leaves hard; a score below 3.0
  takes hard to medium, medium to easy and leaves easy; any other score leaves the
  difficulty as it is.
\<close>

theorem evaluate_answer_difficulty:
  assumes "truthy (awaiting_answer state)" "current_question state = Some (Some q)"
    "messages state = Some msgs" "start_time state = Some started"
    "answers state = Some anss" "difficulty state = Some d"
  shows "\<exists>upd rec d'. evaluate_answer now state = Inr upd \<and> answers upd = Some (anss @ [rec])
     \<and> difficulty (apply_update state upd) = Some d'
     \<and> d' = (if score rec \<ge> 42 / 10
               then (case d of easy \<Rightarrow> medium | medium \<Rightarrow> hard | hard \<Rightarrow> hard)
             else if score rec < 3
               then (case d of hard \<Rightarrow> medium | medium \<Rightarrow> easy | easy \<Rightarrow> easy)
             else d)
     \<and> \<bar>level_rank d' - level_rank d\<bar> \<le> 1"
  using assms(6)
  by (cases d)
     (simp_all add: evaluate_answer_runs[OF assms] apply_update_def empty_update_def
        adjust_difficulty_def over_def level_rank_def)

theorem evaluate_answer_difficulty_witness:
  "\<exists>upd rec. evaluate_answer 90 (posed_state \<lparr> required_skills := Some [] \<rparr>) = Inr upd
     \<and> answers upd = Some [rec] \<and> score rec = 137 / 50
     \<and> difficulty (apply_update (posed_state \<lparr> required_skills := Some [] \<rparr>) upd) = Some easy"
proof -
  let ?s = "posed_state \<lparr> required_skills := Some [] \<rparr>"
  have h: "truthy (awaiting_answer ?s)" "current_question ?s = Some (Some sample_question)"
    "messages ?s = Some posed_messages" "start_time ?s = Some 0"
    "answers ?s = Some []" "difficulty ?s = Some medium"
    by (simp_all add: posed_state_def empty_update_def truthy_def)
  have run: "evaluate_answer 90 ?s = Inr (empty_update
        \<lparr> answers := Some ([] @ [\<lparr> question_id = q_id sample_question, user_answer = last_human posed_messages,
                 score = score_of (get_or [] (required_skills ?s)) (last_human posed_messages),
                 confidence = conf_of (score_of (get_or [] (required_skills ?s)) (last_human posed_messages)),
                 star_usage = star_of (py_lower (last_human posed_messages)),
                 time_taken_sec = 90 - 0 \<rparr>]),
          awaiting_answer := Some False,
          should_follow_up := Some (28 / 10 \<le> score_of (get_or [] (required_skills ?s)) (last_human posed_messages)
                \<and> score_of (get_or [] (required_skills ?s)) (last_human posed_messages) < 42 / 10),
          difficulty := adjust_difficulty medium (score_of (get_or [] (required_skills ?s)) (last_human posed_messages)) \<rparr>)"
    by (rule evaluate_answer_runs[OF h])
  have sc: "score_of (get_or [] (required_skills ?s)) (last_human posed_messages) = 137 / 50"
    by code_simp
  from evaluate_answer_difficulty[OF h, of 90] show ?thesis
    unfolding run sc by (auto simp: empty_update_def)
qed

text \<open>
  Claim C5. An evaluated answer sets the follow-up flag exactly when its score is at
  least 2.8 and below 4.2. The follow-up question generated then has the id
  \<open>followup_\<close> followed by the id of the question just answered, that question's
  type, difficulty and topic, and a text made of the first 20 characters of the answer
  inside a fixed prompt; the step that generates it sets the flag to false. Without
  the flag the follow-up step returns the empty update.
\<close>

theorem follow_up_policy:
  assumes "truthy (awaiting_answer state)" "current_question state = Some (Some q)"
    "messages state = Some msgs" "start_time state = Some started"
    "answers state = Some anss" "difficulty state = Some d"
    "asked_questions state = Some asked" "question_counter state = Some counter"
  shows "\<exists>upd rec. evaluate_answer now state = Inr upd \<and> answers upd = Some (anss @ [rec])
     \<and> should_follow_up upd = Some (28 / 10 \<le> score rec \<and> score rec < 42 / 10)
     \<and> (if 28 / 10 \<le> score rec \<and> score rec < 42 / 10
         then \<exists>upd2. generate_follow_up_question later (apply_update state upd) = Inr upd2
                \<and> current_question upd2 = Some (Some
                     \<lparr> q_id = ''followup_'' @ q_id q,
                       q_text = ''That'' @ [CHR 0x27] @ ''s an interesting point about ''
                                @ [CHR 0x27] @ take 20 (user_answer rec) @ ''...'' @ [CHR 0x27]
                                @ ''. Can you elaborate on the challenges you faced?'',
                       q_type = q_type q, q_difficulty = q_difficulty q, q_topic = q_topic q \<rparr>)
                \<and> should_follow_up upd2 = Some False
                \<and> should_follow_up (apply_update (apply_update state upd) upd2) = Some False
         else generate_follow_up_question later (apply_update state upd) = Inr empty_update)"
proof -
  let ?ans = "last_human msgs"
  let ?sc = "score_of (get_or [] (required_skills state)) ?ans"
  let ?rec = "\<lparr> question_id = q_id q, user_answer = ?ans, score = ?sc, confidence = conf_of ?sc,
                 star_usage = star_of (py_lower ?ans), time_taken_sec = now - started \<rparr>"
  let ?upd = "empty_update
        \<lparr> answers := Some (anss @ [?rec]), awaiting_answer := Some False,
          should_follow_up := Some (28 / 10 \<le> ?sc \<and> ?sc < 42 / 10),
          difficulty := adjust_difficulty d ?sc \<rparr>"
  let ?s = "apply_update state ?upd"
  have ev: "evaluate_answer now state = Inr ?upd"
    by (rule evaluate_answer_runs[OF assms(1-6)])
  have kept: "current_question ?s = Some (Some q)" "messages ?s = Some msgs"
    "asked_questions ?s = Some asked" "question_counter ?s = Some counter"
    "should_follow_up ?s = Some (28 / 10 \<le> ?sc \<and> ?sc < 42 / 10)"
    using assms by (simp_all add: apply_update_def empty_update_def over_def)
  have follow: "\<exists>upd2. generate_follow_up_question later ?s = Inr upd2
        \<and> current_question upd2 = Some (Some
             \<lparr> q_id = ''followup_'' @ q_id q,
               q_text = ''That'' @ [CHR 0x27] @ ''s an interesting point about ''
                        @ [CHR 0x27] @ take 20 ?ans @ ''...'' @ [CHR 0x27]
                        @ ''. Can you elaborate on the challenges you faced?'',
               q_type = q_type q, q_difficulty = q_difficulty q, q_topic = q_topic q \<rparr>)
        \<and> should_follow_up upd2 = Some False
        \<and> should_follow_up (apply_update ?s upd2) = Some False"
    if "28 / 10 \<le> ?sc \<and> ?sc < 42 / 10"
  proof -
    from that kept(5) have "truthy (should_follow_up ?s)" by (simp add: truthy_def)
    from generate_follow_up_question_runs[OF this kept(1-4), of later] show ?thesis
      by (simp add: follow_up_text_def apply_update_def empty_update_def over_def)
  qed
  have none: "generate_follow_up_question later ?s = Inr empty_update"
    if "\<not> (28 / 10 \<le> ?sc \<and> ?sc < 42 / 10)"
    using that kept(5) by (simp add: generate_follow_up_question_def truthy_def)
  have fields: "score ?rec = ?sc" "user_answer ?rec = ?ans" by simp_all
  show ?thesis
  proof (intro exI[of _ ?upd] exI[of _ ?rec] conjI)
    show "evaluate_answer now state = Inr ?upd" by (rule ev)
    show "answers ?upd = Some (anss @ [?rec])" by (simp add: empty_update_def)
    show "should_follow_up ?upd = Some (28 / 10 \<le> score ?rec \<and> score ?rec < 42 / 10)"
      by (simp add: empty_update_def)
    show "if 28 / 10 \<le> score ?rec \<and> score ?rec < 42 / 10
         then \<exists>upd2. generate_follow_up_question later ?s = Inr upd2
                \<and> current_question upd2 = Some (Some
                     \<lparr> q_id = ''followup_'' @ q_id q,
                       q_text = ''That'' @ [CHR 0x27] @ ''s an interesting point about ''
                                @ [CHR 0x27] @ take 20 (user_answer ?rec) @ ''...'' @ [CHR 0x27]
                                @ ''. Can you elaborate on the challenges you faced?'',
                       q_type = q_type q, q_difficulty = q_difficulty q, q_topic = q_topic q \<rparr>)
                \<and> should_follow_up upd2 = Some False
                \<and> should_follow_up (apply_update ?s upd2) = Some False
         else generate_follow_up_question later ?s = Inr empty_update"
      unfolding fields
    proof (cases "28 / 10 \<le> ?sc \<and> ?sc < 42 / 10")
      case True
      show "if 28 / 10 \<le> ?sc \<and> ?sc < 42 / 10
         then \<exists>upd2. generate_follow_up_question later ?s = Inr upd2
                \<and> current_question upd2 = Some (Some
                     \<lparr> q_id = ''followup_'' @ q_id q,
                       q_text = ''That'' @ [CHR 0x27] @ ''s an interesting point about ''
                                @ [CHR 0x27] @ take 20 ?ans @ ''...'' @ [CHR 0x27]
                                @ ''. Can you elaborate on the challenges you faced?'',
                       q_type = q_type q, q_difficulty = q_difficulty q, q_topic = q_topic q \<rparr>)
                \<and> should_follow_up upd2 = Some False
                \<and> should_follow_up (apply_update ?s upd2) = Some False
         else generate_follow_up_question later ?s = Inr empty_update"
        by (subst if_P[OF True]) (rule follow[OF True])
    next
      case False
      show "if 28 / 10 \<le> ?sc \<and> ?sc < 42 / 10
         then \<exists>upd2. generate_follow_up_question later ?s = Inr upd2
                \<and> current_question upd2 = Some (Some
                     \<lparr> q_id = ''followup_'' @ q_id q,
                       q_text = ''That'' @ [CHR 0x27] @ ''s an interesting point about ''
                                @ [CHR 0x27] @ take 20 ?ans @ ''...'' @ [CHR 0x27]
                                @ ''. Can you elaborate on the challenges you faced?'',
                       q_type = q_type q, q_difficulty = q_difficulty q, q_topic = q_topic q \<rparr>)
                \<and> should_follow_up upd2 = Some False
                \<and> should_follow_up (apply_update ?s upd2) = Some False
         else generate_follow_up_question later ?s = Inr empty_update"
        by (subst if_not_P[OF False]) (rule none[OF False])
    qed
  qed
qed

theorem follow_up_policy_witness:
  "\<exists>upd rec upd2. evaluate_answer 90 posed_state = Inr upd \<and> answers upd = Some [rec]
     \<and> score rec = 349 / 100 \<and> should_follow_up upd = Some True
     \<and> generate_follow_up_question 120 (apply_update posed_state upd) = Inr upd2
     \<and> current_question upd2 = Some (Some
          \<lparr> q_id = ''followup_q1'',
            q_text = ''That'' @ [CHR 0x27] @ ''s an interesting point about '' @ [CHR 0x27]
                     @ ''My task was a role w'' @ ''...'' @ [CHR 0x27]
                     @ ''. Can you elaborate on the challenges you faced?'',
            q_type = technical, q_difficulty = medium, q_topic = ''Python'' \<rparr>)
     \<and> should_follow_up upd2 = Some False"
proof -
  have h: "truthy (awaiting_answer posed_state)"
    "current_question posed_state = Some (Some sample_question)"
    "messages posed_state = Some posed_messages" "start_time posed_state = Some 0"
    "answers posed_state = Some []" "difficulty posed_state = Some medium"
    "asked_questions posed_state = Some [sample_question]"
    "question_counter posed_state = Some 1"
    by (simp_all add: posed_state_def empty_update_def truthy_def)
  have run: "evaluate_answer 90 posed_state = Inr (empty_update
        \<lparr> answers := Some ([] @ [\<lparr> question_id = q_id sample_question, user_answer = last_human posed_messages,
                 score = score_of (get_or [] (required_skills posed_state)) (last_human posed_messages),
                 confidence = conf_of (score_of (get_or [] (required_skills posed_state)) (last_human posed_messages)),
                 star_usage = star_of (py_lower (last_human posed_messages)),
                 time_taken_sec = 90 - 0 \<rparr>]),
          awaiting_answer := Some False,
          should_follow_up := Some (28 / 10 \<le> score_of (get_or [] (required_skills posed_state)) (last_human posed_messages)
                \<and> score_of (get_or [] (required_skills posed_state)) (last_human posed_messages) < 42 / 10),
          difficulty := adjust_difficulty medium (score_of (get_or [] (required_skills posed_state)) (last_human posed_messages)) \<rparr>)"
    by (rule evaluate_answer_runs[OF h(1-6)])
  have sc: "score_of (get_or [] (required_skills posed_state)) (last_human posed_messages) = 349 / 100"
    by code_simp
  have ans: "take 20 (last_human posed_messages) = ''My task was a role w''"
    by code_simp
  from follow_up_policy[OF h, of 90 120] show ?thesis
    unfolding run sc by (auto simp: empty_update_def ans sample_question_def)
qed

text \<open>
  Claim C9. When no answer is awaited, or the current question is none,
  \<open>evaluate_answer\<close> returns the empty update without raising, and the state it is
  written over is unchanged in every field. (The guard reads the key
  \<open>current_question\<close> with \<open>state[...]\<close>: the claim's "no current question" is the
  key holding \<open>None\<close>.)
\<close>

theorem evaluate_answer_noop:
  assumes "\<not> truthy (awaiting_answer state) \<or> current_question state = Some None"
  shows "evaluate_answer now state = Inr empty_update \<and> apply_update state empty_update = state"
  using assms by (auto simp: evaluate_answer_def apply_empty_update)

theorem evaluate_answer_noop_witness:
  "evaluate_answer 90 (posed_state \<lparr> current_question := Some None \<rparr>) = Inr empty_update
     \<and> apply_update (posed_state \<lparr> current_question := Some None \<rparr>) empty_update
         = posed_state \<lparr> current_question := Some None \<rparr>
     \<and> evaluate_answer 90 follow_up_state = Inr empty_update
     \<and> apply_update follow_up_state empty_update = follow_up_state"
proof -
  have "current_question (posed_state \<lparr> current_question := Some None \<rparr>) = Some None" by simp
  then have a: "\<not> truthy (awaiting_answer (posed_state \<lparr> current_question := Some None \<rparr>))
      \<or> current_question (posed_state \<lparr> current_question := Some None \<rparr>) = Some None" ..
  have "\<not> truthy (awaiting_answer follow_up_state)"
    by (simp add: follow_up_state_def truthy_def)
  then have b: "\<not> truthy (awaiting_answer follow_up_state)
      \<or> current_question follow_up_state = Some None" ..
  from evaluate_answer_noop[OF a, of 90] evaluate_answer_noop[OF b, of 90] show ?thesis by simp
qed

text \<open>
  In a run of the graph, from any input, bank and clock, \<open>evaluate_answer\<close> never
  finds an awaited answer without a posed question, so it never raises: the invariant
  \<open>run_invariant\<close> holds in every step.
\<close>

lemma controller_cases:
  "fst (controller s) \<in> {N_start_salary_negotiation, N_save_progress,
      N_generate_follow_up_question, N_generate_final_report, N_generate_question}"
  by (simp add: controller_def)

lemma controller_keeps:
  "setup_done (snd (controller s)) = setup_done s"
  "awaiting_answer (snd (controller s)) = awaiting_answer s"
  by (simp_all add: controller_def setup_done_def)

lemma controller_invariant:
  "setup_done s \<Longrightarrow> \<not> truthy (awaiting_answer s) \<Longrightarrow> run_invariant (controller s)"
  using controller_cases[of s] controller_keeps[of s]
  by (auto simp: run_invariant_def)

lemma over_simps: "over a None = a" "over a (Some v) = Some v"
  by (simp_all add: over_def)

lemma over_present: "over (Some a) x \<noteq> None"
  by (cases x) (simp_all add: over_def)

lemma step_invariant:
  assumes "run_invariant c" "graph_step bank now c = Inr c'"
  shows "run_invariant c'"
proof (cases "fst c")
  case START
  with assms show ?thesis by (cases c) (auto simp: graph_step_def run_invariant_def)
next
  case N_parse_job_description
  with assms show ?thesis
    by (cases c) (auto simp: graph_step_def run_invariant_def parse_job_description_def)
next
  case N_research_company
  with assms show ?thesis
    by (cases c) (auto simp: graph_step_def run_invariant_def research_company_def)
next
  case N_analyze_role
  obtain n s where c: "c = (n, s)" by (cases c)
  let ?s = "apply_update s (empty_update
       \<lparr> difficulty := Some (get_or medium (difficulty s)),
         question_counter := Some 0, asked_questions := Some [], answers := Some [],
         awaiting_answer := Some False,
         time_budget_min := Some (get_or 15 (time_budget_min s)),
         estimated_time_used_min := Some 0,
         behavioral_questions := Some 0, technical_questions := Some 0 \<rparr>)"
  have "setup_done ?s" "\<not> truthy (awaiting_answer ?s)"
    by (simp_all add: setup_done_def truthy_def apply_update_def empty_update_def over_simps)
  then have "run_invariant (controller ?s)" by (rule controller_invariant)
  moreover from assms(2) N_analyze_role c have "c' = controller ?s"
    by (simp add: graph_step_def analyze_role_def)
  ultimately show ?thesis by simp
next
  case N_generate_question
  obtain n s where c: "c = (n, s)" by (cases c)
  from assms(1) N_generate_question c have s: "setup_done s" "\<not> truthy (awaiting_answer s)"
    by (simp_all add: run_invariant_def)
  from assms(2) N_generate_question c s show ?thesis
    by (auto simp: graph_step_def generate_question_def Let_def run_invariant_def setup_done_def
          question_posed_def truthy_def apply_update_def empty_update_def over_simps
          split: option.splits if_splits)
next
  case N_evaluate_answer
  obtain n s where c: "c = (n, s)" by (cases c)
  from assms(1) N_evaluate_answer c
  have s: "setup_done s" "truthy (awaiting_answer s) \<Longrightarrow> question_posed s"
    by (simp_all add: run_invariant_def)
  show ?thesis
  proof (cases "truthy (awaiting_answer s)")
    case False
    with assms(2) N_evaluate_answer c s(1) show ?thesis
      by (auto simp: graph_step_def evaluate_answer_def run_invariant_def apply_empty_update)
  next
    case True
    with s(2) have "question_posed s" .
    with assms(2) N_evaluate_answer c s(1) True show ?thesis
      using over_present[of "the (difficulty s)"]
      by (auto simp: graph_step_def evaluate_answer_def Let_def run_invariant_def setup_done_def
            question_posed_def truthy_def apply_update_def empty_update_def over_simps
            split: option.splits)
  qed
next
  case N_generate_follow_up_question
  obtain n s where c: "c = (n, s)" by (cases c)
  from assms(1) N_generate_follow_up_question c
  have s: "setup_done s" "\<not> truthy (awaiting_answer s)"
    by (simp_all add: run_invariant_def)
  from assms(2) N_generate_follow_up_question c s show ?thesis
    by (auto simp: graph_step_def generate_follow_up_question_def Let_def run_invariant_def
          setup_done_def question_posed_def truthy_def apply_update_def empty_update_def over_simps
          split: option.splits if_splits)
next
  case N_update_progress
  obtain n s where c: "c = (n, s)" by (cases c)
  from assms(1) N_update_progress c have s: "setup_done s" "\<not> truthy (awaiting_answer s)"
    by (simp_all add: run_invariant_def)
  from assms(2) N_update_progress c obtain u where
    u: "update_progress s = Inr u" "c' = controller (apply_update s u)"
    by (auto simp: graph_step_def split: sum.splits)
  from u(1) s have "setup_done (apply_update s u)" "\<not> truthy (awaiting_answer (apply_update s u))"
    by (auto simp: update_progress_def Let_def setup_done_def truthy_def apply_update_def
          empty_update_def over_simps split: option.splits if_splits)
  then show ?thesis unfolding u(2) by (rule controller_invariant)
next
  case N_generate_final_report
  obtain n s where c: "c = (n, s)" by (cases c)
  from assms(1) N_generate_final_report c have s: "setup_done s" "\<not> truthy (awaiting_answer s)"
    by (simp_all add: run_invariant_def)
  from assms(2) N_generate_final_report c obtain u where
    u: "generate_final_report s = Inr u" "c' = controller (apply_update s u)"
    by (auto simp: graph_step_def split: sum.splits)
  from u(1) s have "setup_done (apply_update s u)" "\<not> truthy (awaiting_answer (apply_update s u))"
    by (auto simp: generate_final_report_def Let_def setup_done_def truthy_def apply_update_def
          empty_update_def over_simps)
  then show ?thesis unfolding u(2) by (rule controller_invariant)
next
  case N_save_progress
  with assms show ?thesis
    by (cases c) (auto simp: graph_step_def run_invariant_def save_progress_def apply_empty_update)
next
  case N_start_salary_negotiation
  with assms show ?thesis
    by (cases c) (auto simp: graph_step_def run_invariant_def start_salary_negotiation_def
          setup_done_def truthy_def apply_update_def empty_update_def over_simps)
next
  case N_negotiate_salary
  obtain n s where c: "c = (n, s)" by (cases c)
  from assms(1) N_negotiate_salary c have s: "setup_done s" "\<not> truthy (awaiting_answer s)"
    by (simp_all add: run_invariant_def)
  from assms(2) N_negotiate_salary c s show ?thesis
    by (auto simp: graph_step_def negotiate_salary_def Let_def run_invariant_def
          setup_done_def question_posed_def truthy_def apply_update_def empty_update_def over_simps
          split: option.splits if_splits list.splits)
next
  case END
  with assms show ?thesis
    by (cases c) (auto simp: graph_step_def run_invariant_def apply_empty_update)
qed

lemma run_invariant_holds:
  "run bank clock k (START, init) = Inr c \<Longrightarrow> run_invariant c"
proof (induction k arbitrary: c)
  case 0
  then show ?case by (auto simp: run_invariant_def)
next
  case (Suc k)
  from Suc.prems obtain c0 where c0: "run bank clock k (START, init) = Inr c0"
    by (auto split: sum.splits)
  then have inv: "run_invariant c0" by (rule Suc.IH)
  show ?case
  proof (cases "fst c0 = END")
    case True
    with Suc.prems c0 have "c = c0" by simp
    with inv show ?thesis by simp
  next
    case False
    with Suc.prems c0 have "graph_step bank (clock k) c0 = Inr c" by simp
    with inv show ?thesis by (rule step_invariant)
  qed
qed

lemma evaluate_answer_total_in_runs:
  assumes "run bank clock k (START, init) = Inr (N_evaluate_answer, s)"
  shows "\<exists>upd. evaluate_answer now s = Inr upd"
proof -
  from run_invariant_holds[OF assms]
  have "setup_done s" "truthy (awaiting_answer s) \<Longrightarrow> question_posed s"
    by (simp_all add: run_invariant_def)
  then show ?thesis
    by (auto simp: evaluate_answer_def Let_def setup_done_def question_posed_def
          split: option.splits)
qed

subsection \<open>Question selection\<close>

text \<open>
  Claim C6. \<open>_select_question\<close> is a function of the bank and the state: it returns the
  first entry of the bank, in the bank's order, whose id is not among the asked
  questions' and whose difficulty is the current one or medium; without such an entry,
  the first entry whose id is not among the asked questions'; and none when every id
  has been asked. What it returns is an entry of the bank whose id is not among the
  asked questions'.
\<close>

theorem select_question_first_unused:
  "select_question bank state =
     (let used = set (map q_id (get_or [] (asked_questions state)));
          current = get_or medium (difficulty state)
      in case List.find (\<lambda>q. (q_difficulty q = current \<or> q_difficulty q = medium)
                               \<and> q_id q \<notin> used) bank of
           Some q \<Rightarrow> Some q
         | None \<Rightarrow> List.find (\<lambda>q. q_id q \<notin> used) bank)
   \<and> (case select_question bank state of
         None \<Rightarrow> True
       | Some q \<Rightarrow> q \<in> set bank \<and> q_id q \<notin> set (map q_id (get_or [] (asked_questions state))))"
proof -
  let ?used = "set (map q_id (get_or [] (asked_questions state)))"
  let ?cur = "get_or medium (difficulty state)"
  let ?P = "\<lambda>q. (q_difficulty q = ?cur \<or> q_difficulty q = medium) \<and> q_id q \<notin> ?used"
  let ?Q = "\<lambda>q. q_id q \<notin> ?used"
  have sel: "select_question bank state =
     (case List.find ?P bank of Some q \<Rightarrow> Some q | None \<Rightarrow> List.find ?Q bank)"
  proof (cases "List.find ?P bank")
    case None
    then have "filter ?P bank = []" by (simp add: find_None_filter)
    then show ?thesis using None
      by (simp add: select_question_def Let_def find_filter_hd)
  next
    case (Some q)
    then have "filter ?P bank \<noteq> []" by (simp add: find_None_filter)
    then show ?thesis using Some find_filter_hd[of ?P bank]
      by (simp add: select_question_def Let_def)
  qed
  have "q \<in> set bank \<and> q_id q \<notin> ?used" if "select_question bank state = Some q" for q
  proof (cases "List.find ?P bank")
    case None
    with that sel have "List.find ?Q bank = Some q" by simp
    then show ?thesis by (auto simp: find_Some_iff)
  next
    case (Some q')
    with that sel have "List.find ?P bank = Some q" by simp
    then show ?thesis by (auto simp: find_Some_iff)
  qed
  then have unused: "case select_question bank state of None \<Rightarrow> True
       | Some q \<Rightarrow> q \<in> set bank \<and> q_id q \<notin> ?used"
    by (cases "select_question bank state") auto
  show ?thesis unfolding Let_def by (rule conjI[OF sel unused])
qed

theorem select_question_first_unused_witness:
  "select_question [sample_question, salary_question] follow_up_state = Some salary_question
   \<and> select_question [sample_question] follow_up_state = None"
proof -
  have a: "(let used = set (map q_id (get_or [] (asked_questions follow_up_state)));
          current = get_or medium (difficulty follow_up_state)
      in case List.find (\<lambda>q. (q_difficulty q = current \<or> q_difficulty q = medium)
                               \<and> q_id q \<notin> used) [sample_question, salary_question] of
           Some q \<Rightarrow> Some q
         | None \<Rightarrow> List.find (\<lambda>q. q_id q \<notin> used) [sample_question, salary_question])
        = Some salary_question"
    by code_simp
  have b: "(let used = set (map q_id (get_or [] (asked_questions follow_up_state)));
          current = get_or medium (difficulty follow_up_state)
      in case List.find (\<lambda>q. (q_difficulty q = current \<or> q_difficulty q = medium)
                               \<and> q_id q \<notin> used) [sample_question] of
           Some q \<Rightarrow> Some q
         | None \<Rightarrow> List.find (\<lambda>q. q_id q \<notin> used) [sample_question])
        = None"
    by code_simp
  show ?thesis
    using conjunct1[OF select_question_first_unused[of "[sample_question, salary_question]" follow_up_state]]
      conjunct1[OF select_question_first_unused[of "[sample_question]" follow_up_state]]
    unfolding a b by (rule conjI)
qed

subsection \<open>Follow-up questions and the quota\<close>

text \<open>
  Claim C10. A follow-up question is appended to the asked questions and raises the
  question counter by one, as a question of the bank does in \<open>generate_question\<close>;
  and outside the closing phases, with no follow-up due and time left, the controller
  goes to the final report exactly when the counter has reached \<open>max_questions\<close>, so a
  follow-up uses up one question of the quota.
\<close>

theorem follow_up_uses_quota:
  assumes "truthy (should_follow_up state)" "current_question state = Some (Some previous)"
    "messages state = Some msgs" "asked_questions state = Some asked"
    "question_counter state = Some counter"
  shows "\<exists>upd fq. generate_follow_up_question now state = Inr upd
     \<and> asked_questions upd = Some (asked @ [fq]) \<and> q_id fq = ''followup_'' @ q_id previous
     \<and> question_counter upd = Some (counter + 1)
     \<and> question_counter (apply_update state upd) = Some (counter + 1)
     \<and> (if counter < get_or 5 (max_questions state)
         then (case select_question bank state of
                 None \<Rightarrow> generate_question bank now state
                           = Inr (empty_update \<lparr> current_question := Some None \<rparr>)
               | Some bq \<Rightarrow> \<exists>upd'. generate_question bank now state = Inr upd'
                           \<and> asked_questions upd' = Some (asked @ [bq])
                           \<and> question_counter upd' = Some (counter + 1))
         else generate_question bank now state
                = Inr (empty_update \<lparr> current_question := Some None \<rparr>))
     \<and> (\<not> truthy (interview_complete t) \<and> \<not> get_or False (should_follow_up t)
          \<and> get_or 0 (estimated_time_used_min t) < of_int (get_or 15 (time_budget_min t))
         \<longrightarrow> (fst (controller t) = N_generate_final_report)
               = (get_or 0 (question_counter t) \<ge> get_or 5 (max_questions t)))"
proof -
  let ?fq = "\<lparr> q_id = ''followup_'' @ q_id previous,
             q_text = follow_up_text (last_human msgs), q_type = q_type previous,
             q_difficulty = q_difficulty previous, q_topic = q_topic previous \<rparr>"
  let ?upd = "empty_update
       \<lparr> current_question := Some (Some ?fq), start_time := Some now,
         question_counter := Some (counter + 1),
         asked_questions := Some (asked @ [?fq]),
         awaiting_answer := Some True,
         messages := Some (msgs @ [AIMessage (''Follow-up: '' @ follow_up_text (last_human msgs))]),
         should_follow_up := Some False \<rparr>"
  have fu: "generate_follow_up_question now state = Inr ?upd"
    by (rule generate_follow_up_question_runs[OF assms])
  have gq: "if counter < get_or 5 (max_questions state)
         then (case select_question bank state of
                 None \<Rightarrow> generate_question bank now state
                           = Inr (empty_update \<lparr> current_question := Some None \<rparr>)
               | Some bq \<Rightarrow> \<exists>upd'. generate_question bank now state = Inr upd'
                           \<and> asked_questions upd' = Some (asked @ [bq])
                           \<and> question_counter upd' = Some (counter + 1))
         else generate_question bank now state
                = Inr (empty_update \<lparr> current_question := Some None \<rparr>)"
    using assms(4,5)
    by (cases "select_question bank state")
       (simp_all add: generate_question_def Let_def get_or_def empty_update_def)
  have ctl: "\<not> truthy (interview_complete t) \<and> \<not> get_or False (should_follow_up t)
          \<and> get_or 0 (estimated_time_used_min t) < of_int (get_or 15 (time_budget_min t))
         \<longrightarrow> (fst (controller t) = N_generate_final_report)
               = (get_or 0 (question_counter t) \<ge> get_or 5 (max_questions t))"
    by (simp add: controller_def)
  show ?thesis
  proof (intro exI[of _ ?upd] exI[of _ ?fq] conjI)
    show "generate_follow_up_question now state = Inr ?upd" by (rule fu)
    show "asked_questions ?upd = Some (asked @ [?fq])" by (simp add: empty_update_def)
    show "q_id ?fq = ''followup_'' @ q_id previous" by simp
    show "question_counter ?upd = Some (counter + 1)" by (simp add: empty_update_def)
    show "question_counter (apply_update state ?upd) = Some (counter + 1)"
      by (simp add: apply_update_def empty_update_def over_def)
    show "if counter < get_or 5 (max_questions state)
         then (case select_question bank state of
                 None \<Rightarrow> generate_question bank now state
                           = Inr (empty_update \<lparr> current_question := Some None \<rparr>)
               | Some bq \<Rightarrow> \<exists>upd'. generate_question bank now state = Inr upd'
                           \<and> asked_questions upd' = Some (asked @ [bq])
                           \<and> question_counter upd' = Some (counter + 1))
         else generate_question bank now state
                = Inr (empty_update \<lparr> current_question := Some None \<rparr>)" by (rule gq)
    show "\<not> truthy (interview_complete t) \<and> \<not> get_or False (should_follow_up t)
          \<and> get_or 0 (estimated_time_used_min t) < of_int (get_or 15 (time_budget_min t))
         \<longrightarrow> (fst (controller t) = N_generate_final_report)
               = (get_or 0 (question_counter t) \<ge> get_or 5 (max_questions t))" by (rule ctl)
  qed
qed

theorem follow_up_uses_quota_witness:
  "(\<exists>upd fq. generate_follow_up_question 120 follow_up_state = Inr upd
      \<and> asked_questions upd = Some [sample_question, fq] \<and> q_id fq = ''followup_q1''
      \<and> question_counter upd = Some 2)
   \<and> fst (controller (posed_state \<lparr> question_counter := Some 5 \<rparr>)) = N_generate_final_report"
proof -
  let ?t = "posed_state \<lparr> question_counter := Some 5 \<rparr>"
  have h: "truthy (should_follow_up follow_up_state)"
    "current_question follow_up_state = Some (Some sample_question)"
    "messages follow_up_state = Some posed_messages"
    "asked_questions follow_up_state = Some [sample_question]"
    "question_counter follow_up_state = Some 1"
    by (simp_all add: follow_up_state_def posed_state_def empty_update_def truthy_def)
  have t: "\<not> truthy (interview_complete ?t)" "\<not> get_or False (should_follow_up ?t)"
    "get_or 0 (estimated_time_used_min ?t) < of_int (get_or 15 (time_budget_min ?t))"
    "get_or 0 (question_counter ?t) \<ge> get_or 5 (max_questions ?t)"
    by (simp_all add: posed_state_def empty_update_def truthy_def get_or_def)
  from follow_up_uses_quota[OF h, of 120 "[]" ?t] t show ?thesis
    by (auto simp: sample_question_def)
qed

subsection \<open>The final report\<close>



subsection \<open>Runs of the graph\<close>

text \<open>
  Claim C2 asks that, when the interview is not complete, no follow-up is due, time and
  quota are left and the selector finds no question, the run reaches
  \<open>generate_final_report\<close>. The graph has no such edge: \<open>generate_question\<close> returns
  \<open>current_question = None\<close>, its edge leads on to \<open>evaluate_answer\<close> and
  \<open>update_progress\<close>, which change nothing, and the controller sends the run back to
  \<open>generate_question\<close>. With an empty bank and the input of \<open>__main__\<close> the state
  that \<open>generate_question\<close> finds in step 4 satisfies the claim's conditions, and for
  every clock no step of the run is \<open>generate_final_report\<close> or \<open>END\<close>, and none
  raises.
\<close>

theorem exhausted_bank_never_reports:
  "(\<forall>clock. case state_at [] clock 4 main_init of
       None \<Rightarrow> False
     | Some s \<Rightarrow> node_at [] clock 4 main_init = Some N_generate_question
         \<and> \<not> truthy (interview_complete s) \<and> \<not> get_or False (should_follow_up s)
         \<and> get_or 0 (estimated_time_used_min s) < of_int (get_or 15 (time_budget_min s))
         \<and> get_or 0 (question_counter s) < get_or 5 (max_questions s)
         \<and> select_question [] s = None)
   \<and> (\<forall>clock k. node_at [] clock k main_init
                   \<notin> {None, Some N_generate_final_report, Some END})"
proof (intro conjI allI)
  fix clock
  show "case state_at [] clock 4 main_init of
       None \<Rightarrow> False
     | Some s \<Rightarrow> node_at [] clock 4 main_init = Some N_generate_question
         \<and> \<not> truthy (interview_complete s) \<and> \<not> get_or False (should_follow_up s)
         \<and> get_or 0 (estimated_time_used_min s) < of_int (get_or 15 (time_budget_min s))
         \<and> get_or 0 (question_counter s) < get_or 5 (max_questions s)
         \<and> select_question [] s = None"
    by code_simp
next
  fix clock k
  show "node_at [] clock k main_init \<notin> {None, Some N_generate_final_report, Some END}"
  proof (cases "k < 5")
    case True
    then consider "k = 0" | "k = 1" | "k = 2" | "k = 3" | "k = 4" by linarith
    then show ?thesis
    proof cases
      case 1 then show ?thesis using stall_prefix(1)[of clock] by simp
    next
      case 2 then show ?thesis using stall_prefix(2)[of clock] by simp
    next
      case 3 then show ?thesis using stall_prefix(3)[of clock] by simp
    next
      case 4 then show ?thesis using stall_prefix(4)[of clock] by simp
    next
      case 5 then show ?thesis using stall_prefix(5)[of clock] by simp
    qed
  next
    case False
    then have "k = (k - 5) + 5" by simp
    then obtain j where "k = j + 5" ..
    with stall_loop[of clock j] show ?thesis by (auto simp: node_at_def)
  qed
qed

text \<open>
  Claim C3 asks that every answer's \<open>question_id\<close> is the id of an asked question, also
  after the salary answer. \<open>negotiate_salary\<close> poses its question without appending it
  to \<open>asked_questions\<close>, as \<open>generate_question\<close> and
  \<open>generate_follow_up_question\<close> do. On a bank of one question and a salary question,
  with room for one question, the run ends in step 13 with the answers to \<open>q1\<close> and
  \<open>q2\<close> and with \<open>q1\<close> alone among the asked questions.
\<close>

theorem salary_answer_not_asked:
  "case state_at [sample_question, salary_question] minute_clock 13 short_init of
     None \<Rightarrow> False
   | Some s \<Rightarrow> node_at [sample_question, salary_question] minute_clock 13 short_init = Some END
       \<and> map question_id (get_or [] (answers s)) = [''q1'', ''q2'']
       \<and> map q_id (get_or [] (asked_questions s)) = [''q1'']"
  by code_simp

text \<open>
  Claim C7 asks that the time used grows only with a newly completed answer, by that
  answer's time. \<open>update_progress\<close> follows every \<open>evaluate_answer\<close>, also one that
  returned the empty update, and adds the time of the last answer again. On a bank of
  one question and the input of \<open>__main__\<close>, with a minute between steps, the one
  answer takes 60 seconds; the state has one answer and 1 minute used in step 7, and
  after the \<open>update_progress\<close> of step 9 the same answers and 2 minutes used.
\<close>

theorem time_added_without_answer:
  "case (state_at [sample_question] minute_clock 7 main_init,
         state_at [sample_question] minute_clock 10 main_init) of
     (Some s, Some s') \<Rightarrow>
        node_at [sample_question] minute_clock 9 main_init = Some N_update_progress
      \<and> map time_taken_sec (get_or [] (answers s)) = [60]
      \<and> answers s' = answers s
      \<and> estimated_time_used_min s = Some 1
      \<and> estimated_time_used_min s' = Some 2
   | _ \<Rightarrow> False"
  by code_simp

end
